theory Spec2Isabelle
  imports Main "HOL-Library.AList" "HOL-Library.Sublist"
begin

section \<open>Data model of \<open>utility.py\<close>\<close>

text \<open>
  Exceptions raised by the code. \<open>AssertionError\<close> and \<open>NotImplementedError\<close> carry the
  message the source formats; the other three are raised by the interpreter itself
  (\<open>args[0]\<close> on an empty tuple, \<open>name in None\<close>, \<open>setattr\<close> on a value without
  attributes).
\<close>

datatype error =
    AssertionError string
  | NotImplementedError string
  | TypeError
  | IndexError
  | AttributeError

text \<open>
  A class object, as far as the factory reads it: \<open>__module__\<close> and \<open>__name__\<close>.
  Two class objects are different objects even when both attributes agree (classes of the
  same name nested in two outer classes of one module, or made by two calls of one
  function), so the object identity is a field of its own.
\<close>

record pyclass =
  class_id :: nat
  class_module :: string
  class_name :: string

text \<open>
  A registered callable: its \<open>__name__\<close> and what calling it returns. The arguments
  \<open>*args, **kwargs\<close> that \<open>create\<close> receives and forwards are one opaque value of
  type \<open>'a\<close>; the callable is opaque as well, and its result type \<open>'r\<close> may hold
  whatever the call does.
\<close>

record ('a, 'r) registree =
  registree_name :: string
  registree_call :: "'a \<Rightarrow> 'r"

text \<open>
  \<open>AbstractFactory.registry\<close>: one dictionary, a class attribute of the base class that
  every subclass inherits, from canonical tag to callable.
\<close>

type_synonym ('a, 'r) registry = "string \<rightharpoonup> ('a, 'r) registree"

section \<open>\<open>AbstractFactory\<close>\<close>

text \<open>
  \<open>default_tag\<close> returns \<open>registree.__name__\<close>; \<open>namespace\<close> and
  \<open>canonicalize\<close> format \<open>f"{cls.__module__}.{cls.__name__}"\<close> and
  \<open>f"{cls.namespace()}.{tag}"\<close>.
\<close>

definition default_tag :: "('a, 'r) registree \<Rightarrow> string" where
  "default_tag registree = registree_name registree"

definition namespace :: "pyclass \<Rightarrow> string" where
  "namespace cls = class_module cls @ ''.'' @ class_name cls"

definition canonicalize :: "pyclass \<Rightarrow> string \<Rightarrow> string" where
  "canonicalize cls tag = namespace cls @ ''.'' @ tag"

text \<open>
  The line \<open>tag = custom_tag if custom_tag else cls.default_tag(registree)\<close> of
  \<open>register\<close>: the test is Python's truth value, so both \<open>None\<close> and the empty
  string select the default tag.
\<close>

definition registration_tag :: "string option \<Rightarrow> ('a, 'r) registree \<Rightarrow> string" where
  "registration_tag custom_tag registree =
     (case custom_tag of
        None \<Rightarrow> default_tag registree
      | Some t \<Rightarrow> if t \<noteq> [] then t else default_tag registree)"

text \<open>
  \<open>register(custom_tag)(registree)\<close>, with the table passed in and returned:
  \<^verbatim>\<open>
  tag = custom_tag if custom_tag else cls.default_tag(registree)
  tag = cls.canonicalize(tag)
  assert tag not in cls.registry, f"Duplicate tag registration found! Tag {tag} has already been registered"
  cls.registry[tag] = registree
  return registree
  \<close>
  The \<open>assert\<close> is the interpreter's default mode, where it raises; the table is
  returned on the error path too, as the caller finds it after the exception.
\<close>

definition register ::
  "pyclass \<Rightarrow> string option \<Rightarrow> ('a, 'r) registree \<Rightarrow> ('a, 'r) registry
     \<Rightarrow> (error + ('a, 'r) registree) \<times> ('a, 'r) registry" where
  "register cls custom_tag registree registry =
     (let tag = registration_tag custom_tag registree;
          tag = canonicalize cls tag
      in case registry tag of
           Some _ \<Rightarrow>
             (Inl (AssertionError
                (''Duplicate tag registration found! Tag '' @ tag
                   @ '' has already been registered'')),
              registry)
         | None \<Rightarrow> (Inr registree, registry(tag \<mapsto> registree)))"

text \<open>
  \<open>create(tag, *args, **kwargs)\<close>, with the table passed in and returned:
  \<^verbatim>\<open>
  tag = cls.canonicalize(tag)
  if tag in cls.registry:
      return cls.registry[tag](*args, **kwargs)
  else:
      raise NotImplementedError(f"Tag {tag} is not registered in the namespace {cls.namespace()}")
  \<close>
\<close>

definition create ::
  "pyclass \<Rightarrow> string \<Rightarrow> 'a \<Rightarrow> ('a, 'r) registry \<Rightarrow> (error + 'r) \<times> ('a, 'r) registry" where
  "create cls tag args registry =
     (let tag = canonicalize cls tag
      in case registry tag of
           Some registree \<Rightarrow> (Inr (registree_call registree args), registry)
         | None \<Rightarrow>
             (Inl (NotImplementedError
                (''Tag '' @ tag @ '' is not registered in the namespace '' @ namespace cls)),
              registry))"

text \<open>
  A history of calls on the shared table: the two operations of the class that touch it.
\<close>

datatype ('a, 'r) operation =
    Register pyclass "string option" "('a, 'r) registree"
  | Create pyclass string 'a

fun exec :: "('a, 'r) operation \<Rightarrow> ('a, 'r) registry \<Rightarrow> ('a, 'r) registry" where
  "exec (Register cls custom_tag registree) registry =
     snd (register cls custom_tag registree registry)"
| "exec (Create cls tag args) registry = snd (create cls tag args registry)"

fun run :: "('a, 'r) operation list \<Rightarrow> ('a, 'r) registry \<Rightarrow> ('a, 'r) registry" where
  "run [] registry = registry"
| "run (op # ops) registry = run ops (exec op registry)"

section \<open>\<open>auto_field_assignment\<close>\<close>

text \<open>
  Values the decorator handles: an instance with its attribute dictionary (in insertion
  order), or any value that takes no attributes.
\<close>

datatype 'v pyobject =
    Atom 'v
  | Instance "(string \<times> 'v pyobject) list"

text \<open>
  The wrapped function: the parameter names of \<open>inspect.signature(func)\<close> in order, and
  what the call \<open>func(self_, **kwargs)\<close> does.
\<close>

record ('v, 'r) pyfunction =
  signature_parameters :: "string list"
  function_call :: "'v pyobject \<Rightarrow> (string \<times> 'v pyobject) list \<Rightarrow> 'r"

fun setattr :: "'v pyobject \<Rightarrow> string \<Rightarrow> 'v pyobject \<Rightarrow> error + 'v pyobject" where
  "setattr (Instance attrs) name val = Inr (Instance (AList.update name val attrs))"
| "setattr (Atom _) name val = Inl AttributeError"

text \<open>
  The loop \<open>for name, value in zip(parameters, args[1:]): kwargs[name] = value\<close>; a
  dictionary keeps the position of a key it already has.
\<close>

fun merge_args ::
  "(string \<times> 'v pyobject) list \<Rightarrow> (string \<times> 'v pyobject) list
     \<Rightarrow> (string \<times> 'v pyobject) list" where
  "merge_args [] kwargs = kwargs"
| "merge_args ((name, val) # rest) kwargs = merge_args rest (AList.update name val kwargs)"

text \<open>
  The loop over \<open>kwargs.items()\<close>. \<open>name in special_items\<close> raises TypeError when
  \<open>special_items\<close> is \<open>None\<close>.
\<close>

fun assign_fields ::
  "string list option \<Rightarrow> (string \<times> 'v pyobject) list \<Rightarrow> 'v pyobject
     \<Rightarrow> error + 'v pyobject" where
  "assign_fields special_items [] self = Inr self"
| "assign_fields special_items ((name, val) # items) self =
     (case special_items of
        None \<Rightarrow> Inl TypeError
      | Some special \<Rightarrow>
          if name \<in> set special then assign_fields special_items items self
          else (case setattr self name val of
                  Inl e \<Rightarrow> Inl e
                | Inr self' \<Rightarrow> assign_fields special_items items self'))"

text \<open>
  \<open>decorated(*args, **kwargs)\<close>:
  \<^verbatim>\<open>
  self_ = args[0]
  signature = inspect.signature(func)
  parameters = (param for param in signature.parameters if param != "self")
  for name, value in zip(parameters, args[1:]):
      kwargs[name] = value
  for name, value in kwargs.items():
      if name in special_items:
          continue
      setattr(self_, name, value)
  func(self_, **kwargs)
  \<close>
  The result is the error raised before the wrapped function is reached, or the run of the
  wrapped function on the updated instance and the merged keyword arguments.
\<close>

definition decorated ::
  "string list option \<Rightarrow> ('v, 'r) pyfunction \<Rightarrow> 'v pyobject list
     \<Rightarrow> (string \<times> 'v pyobject) list \<Rightarrow> error + 'r" where
  "decorated special_items func args kwargs =
     (case args of
        [] \<Rightarrow> Inl IndexError
      | self # rest \<Rightarrow>
          (let parameters = filter (\<lambda>param. param \<noteq> ''self'') (signature_parameters func);
               kwargs = merge_args (zip parameters rest) kwargs
           in case assign_fields special_items kwargs self of
                Inl e \<Rightarrow> Inl e
              | Inr self' \<Rightarrow> Inr (function_call func self' kwargs)))"

definition auto_field_assignment ::
  "string list option \<Rightarrow> ('v, 'r) pyfunction \<Rightarrow> 'v pyobject list
     \<Rightarrow> (string \<times> 'v pyobject) list \<Rightarrow> error + 'r" where
  "auto_field_assignment special_items func = decorated special_items func"

section \<open>Example objects\<close>

text \<open>
  The scenario of the specification: a factory \<open>ShapeFactory\<close> in a module \<open>shapes\<close>,
  and two constructors taking one number.
\<close>

definition ShapeFactory :: pyclass where
  "ShapeFactory = \<lparr>class_id = 0, class_module = ''shapes'', class_name = ''ShapeFactory''\<rparr>"

definition Circle :: "(nat, string \<times> nat) registree" where
  "Circle = \<lparr>registree_name = ''Circle'', registree_call = (\<lambda>radius. (''Circle'', radius))\<rparr>"

definition Square :: "(nat, string \<times> nat) registree" where
  "Square = \<lparr>registree_name = ''Square'', registree_call = (\<lambda>side. (''Square'', side))\<rparr>"



text \<open>
  Two wrapped functions: \<open>def __init__(self)\<close> and \<open>def __init__(self, radius)\<close>. The
  call is kept as the pair of what it receives.
\<close>

definition init_without_parameters :: "(nat, nat pyobject \<times> (string \<times> nat pyobject) list) pyfunction" where
  "init_without_parameters =
     \<lparr>signature_parameters = [''self''], function_call = (\<lambda>self kwargs. (self, kwargs))\<rparr>"

definition init_with_radius :: "(nat, nat pyobject \<times> (string \<times> nat pyobject) list) pyfunction" where
  "init_with_radius =
     \<lparr>signature_parameters = [''self'', ''radius''],
      function_call = (\<lambda>self kwargs. (self, kwargs))\<rparr>"

section \<open>Shared lemmas\<close>

lemma register_fresh:
  "registry (canonicalize cls (registration_tag custom_tag registree)) = None \<Longrightarrow>
   register cls custom_tag registree registry =
     (Inr registree,
      registry(canonicalize cls (registration_tag custom_tag registree) \<mapsto> registree))"
  by (simp add: register_def)

lemma register_duplicate:
  "registry (canonicalize cls (registration_tag custom_tag registree)) = Some r0 \<Longrightarrow>
   register cls custom_tag registree registry =
     (Inl (AssertionError
        (''Duplicate tag registration found! Tag ''
           @ canonicalize cls (registration_tag custom_tag registree)
           @ '' has already been registered'')),
      registry)"
  by (simp add: register_def)

lemma create_present:
  "registry (canonicalize cls tag) = Some registree \<Longrightarrow>
   create cls tag args registry = (Inr (registree_call registree args), registry)"
  by (simp add: create_def)

lemma create_absent:
  "registry (canonicalize cls tag) = None \<Longrightarrow>
   create cls tag args registry =
     (Inl (NotImplementedError
        (''Tag '' @ canonicalize cls tag @ '' is not registered in the namespace ''
           @ namespace cls)),
      registry)"
  by (simp add: create_def)

lemma exec_extends: "registry \<subseteq>\<^sub>m exec op registry"
proof (cases op)
  case (Register cls custom_tag registree)
  show ?thesis
  proof (cases "registry (canonicalize cls (registration_tag custom_tag registree))")
    case None
    then show ?thesis
      using Register by (auto simp: register_fresh map_le_def)
  next
    case (Some r0)
    then show ?thesis
      using Register by (simp add: register_duplicate)
  qed
next
  case (Create cls tag args)
  then show ?thesis
    by (cases "registry (canonicalize cls tag)") (simp_all add: create_present create_absent)
qed

lemma run_extends: "registry \<subseteq>\<^sub>m run ops registry"
proof (induction ops arbitrary: registry)
  case Nil
  show ?case by simp
next
  case (Cons op ops)
  have "registry \<subseteq>\<^sub>m exec op registry" by (rule exec_extends)
  also have "exec op registry \<subseteq>\<^sub>m run ops (exec op registry)" by (rule Cons.IH)
  finally show ?case by simp
qed

lemma run_keeps:
  "registry key = Some registree \<Longrightarrow> run ops registry key = Some registree"
  using run_extends [of registry ops] by (auto simp: map_le_def dom_def)

lemma registered_then_created:
  assumes "register cls custom_tag registree registry = (Inr registree', registry')"
  shows "create cls (registration_tag custom_tag registree) args (run ops registry')
           = (Inr (registree_call registree args), run ops registry')"
proof -
  let ?key = "canonicalize cls (registration_tag custom_tag registree)"
  have fresh: "registry ?key = None"
    using assms by (cases "registry ?key") (simp_all add: register_duplicate)
  then have "registry' = registry(?key \<mapsto> registree)"
    using assms by (auto simp: register_fresh)
  then have "registry' ?key = Some registree" by simp
  then have "run ops registry' ?key = Some registree" by (rule run_keeps)
  then show ?thesis by (rule create_present)
qed




lemma merge_args_nonempty:
  "kwargs \<noteq> [] \<or> items \<noteq> [] \<Longrightarrow> merge_args items kwargs \<noteq> []"
proof (induction items arbitrary: kwargs)
  case Nil
  then show ?case by simp
next
  case (Cons item items)
  obtain name val where item: "item = (name, val)" by (cases item)
  have "AList.update name val kwargs \<noteq> []" by (cases kwargs) auto
  then show ?case using Cons.IH item by simp
qed

lemma assign_fields_None:
  "kwargs \<noteq> [] \<Longrightarrow> assign_fields None kwargs self = Inl TypeError"
  by (cases kwargs) auto

section \<open>The registry round trip\<close>



section \<open>Errors\<close>

text \<open>
  C2. When the canonical key of a registration is already in the table, the registration
  raises the duplicate-registration error (the \<open>AssertionError\<close> with the message of the
  source), the table is the one before the call, the key still maps to the callable that
  was registered first, and \<open>create\<close> under that tag still calls the first callable.
\<close>

theorem duplicate_registration_rejected:
  assumes "registry (canonicalize cls (registration_tag custom_tag registree)) = Some first"
  shows "register cls custom_tag registree registry
           = (Inl (AssertionError
                (''Duplicate tag registration found! Tag ''
                   @ canonicalize cls (registration_tag custom_tag registree)
                   @ '' has already been registered'')),
              registry)
         \<and> snd (register cls custom_tag registree registry)
              (canonicalize cls (registration_tag custom_tag registree)) = Some first
         \<and> fst (create cls (registration_tag custom_tag registree) args
                  (snd (register cls custom_tag registree registry)))
             = Inr (registree_call first args)"
  using assms by (simp add: register_duplicate create_present)

theorem duplicate_registration_rejected_witness:
  "snd (register ShapeFactory (Some ''sq'') Square Map.empty) ''shapes.ShapeFactory.sq''
     = Some Square
   \<and> register ShapeFactory (Some ''sq'') Circle
         (snd (register ShapeFactory (Some ''sq'') Square Map.empty))
       = (Inl (AssertionError
            ''Duplicate tag registration found! Tag shapes.ShapeFactory.sq has already been registered''),
          snd (register ShapeFactory (Some ''sq'') Square Map.empty))
   \<and> fst (create ShapeFactory ''sq'' 2
            (snd (register ShapeFactory (Some ''sq'') Circle
                    (snd (register ShapeFactory (Some ''sq'') Square Map.empty)))))
       = Inr (''Square'', 2)"
proof -
  have tag: "registration_tag (Some ''sq'') Circle = ''sq''"
    by (simp add: registration_tag_def)
  have key: "canonicalize ShapeFactory ''sq'' = ''shapes.ShapeFactory.sq''"
    by (simp add: canonicalize_def namespace_def ShapeFactory_def)
  have first: "snd (register ShapeFactory (Some ''sq'') Square Map.empty)
                 (canonicalize ShapeFactory (registration_tag (Some ''sq'') Circle))
               = Some Square"
    by (simp add: register_def registration_tag_def key)
  have call: "registree_call Square 2 = (''Square'', 2)"
    by (simp add: Square_def)
  note duplicate_registration_rejected
    [of "snd (register ShapeFactory (Some ''sq'') Square Map.empty)" ShapeFactory
      "Some ''sq''" Circle Square 2, OF first]
  then show ?thesis
    using first unfolding tag key call append_Cons append_Nil by blast
qed



section \<open>Namespaces and canonical keys\<close>




text \<open>
  C5. \<open>canonicalize(T)\<close> is the namespace, a dot and \<open>T\<close>, one after the other; two
  different tags canonicalized under one subtype give different keys.
\<close>

theorem canonicalize_concatenates:
  "canonicalize cls T = namespace cls @ ''.'' @ T
   \<and> (T1 \<noteq> T2 \<longrightarrow> canonicalize cls T1 \<noteq> canonicalize cls T2)"
  by (simp add: canonicalize_def)

theorem canonicalize_concatenates_witness:
  "canonicalize ShapeFactory ''sq'' = ''shapes.ShapeFactory.sq''
   \<and> ''sq'' \<noteq> ''Circle''
   \<and> canonicalize ShapeFactory ''sq'' \<noteq> canonicalize ShapeFactory ''Circle''"
proof -
  have "''sq'' \<noteq> ''Circle''" by simp
  moreover have "namespace ShapeFactory @ ''.'' @ ''sq'' = ''shapes.ShapeFactory.sq''"
    by (simp add: namespace_def ShapeFactory_def)
  ultimately show ?thesis
    using canonicalize_concatenates [of ShapeFactory "''sq''" "''sq''" "''Circle''"]
    by metis
qed

section \<open>Registration\<close>

text \<open>
  C6. The default tag of a callable is its \<open>__name__\<close>. A registration with no custom
  tag uses that tag: on a table without the key it succeeds and stores the callable under
  the canonical key of its default tag; and once it has succeeded, on that table or on the
  table after any further calls \<open>ops\<close>, \<open>create(default_tag(C), *args)\<close> returns what
  calling \<open>C\<close> on the arguments returns.
\<close>

theorem default_tag_registration:
  "default_tag registree = registree_name registree
   \<and> (registry (canonicalize cls (default_tag registree)) = None \<longrightarrow>
        register cls None registree registry
          = (Inr registree, registry(canonicalize cls (default_tag registree) \<mapsto> registree)))
   \<and> (register cls None registree registry = (Inr registree', registry') \<longrightarrow>
        fst (create cls (default_tag registree) args (run ops registry'))
          = Inr (registree_call registree args))"
proof (intro conjI impI)
  show "default_tag registree = registree_name registree"
    by (simp add: default_tag_def)
next
  assume "registry (canonicalize cls (default_tag registree)) = None"
  then show "register cls None registree registry
      = (Inr registree, registry(canonicalize cls (default_tag registree) \<mapsto> registree))"
    using register_fresh [of registry cls None registree]
    by (simp add: registration_tag_def)
next
  assume "register cls None registree registry = (Inr registree', registry')"
  then show "fst (create cls (default_tag registree) args (run ops registry'))
      = Inr (registree_call registree args)"
    using registered_then_created [of cls None registree registry registree' registry' args ops]
    by (simp add: registration_tag_def)
qed

theorem default_tag_registration_witness:
  "default_tag Circle = ''Circle''
   \<and> register ShapeFactory None Circle Map.empty
       = (Inr Circle, [''shapes.ShapeFactory.Circle'' \<mapsto> Circle])
   \<and> fst (create ShapeFactory ''Circle'' 5
            (run [Register ShapeFactory (Some ''sq'') Square]
               [''shapes.ShapeFactory.Circle'' \<mapsto> Circle]))
       = Inr (''Circle'', 5)"
proof -
  have tag: "default_tag Circle = ''Circle''"
    by (simp add: default_tag_def Circle_def)
  have call: "registree_call Circle 5 = (''Circle'', 5)"
    by (simp add: Circle_def)
  have key: "canonicalize ShapeFactory ''Circle'' = ''shapes.ShapeFactory.Circle''"
    by (simp add: canonicalize_def namespace_def ShapeFactory_def)
  from default_tag_registration
    [of Circle Map.empty ShapeFactory Circle "[''shapes.ShapeFactory.Circle'' \<mapsto> Circle]" 5
      "[Register ShapeFactory (Some ''sq'') Square]"]
  show ?thesis unfolding tag key call by blast
qed

text \<open>
  C7. The decorator of \<open>register(custom_tag)\<close> returns the callable it was given: it
  does return on a table without the key, and whenever it returns, the value is the
  registree itself and the table differs from the one before by the new entry only.
\<close>

theorem register_returns_registree:
  "(registry (canonicalize cls (registration_tag custom_tag registree)) = None \<longrightarrow>
      fst (register cls custom_tag registree registry) = Inr registree)
   \<and> (fst (register cls custom_tag registree registry) = Inr registree' \<longrightarrow>
        registree' = registree
        \<and> snd (register cls custom_tag registree registry)
            = registry(canonicalize cls (registration_tag custom_tag registree) \<mapsto> registree))"
proof (cases "registry (canonicalize cls (registration_tag custom_tag registree))")
  case None
  then show ?thesis by (auto simp: register_fresh)
next
  case (Some first)
  then show ?thesis by (simp add: register_duplicate)
qed

theorem register_returns_registree_witness:
  "Map.empty (canonicalize ShapeFactory (registration_tag (Some ''sq'') Square)) = None
   \<and> fst (register ShapeFactory (Some ''sq'') Square Map.empty) = Inr Square
   \<and> snd (register ShapeFactory (Some ''sq'') Square Map.empty)
       = [''shapes.ShapeFactory.sq'' \<mapsto> Square]"
proof -
  have key: "canonicalize ShapeFactory (registration_tag (Some ''sq'') Square)
      = ''shapes.ShapeFactory.sq''"
    by (simp add: canonicalize_def namespace_def ShapeFactory_def registration_tag_def)
  have fresh: "Map.empty (canonicalize ShapeFactory (registration_tag (Some ''sq'') Square))
      = None" by simp
  note inst = register_returns_registree [of Map.empty ShapeFactory "Some ''sq''" Square Square]
  from inst fresh have ret: "fst (register ShapeFactory (Some ''sq'') Square Map.empty) = Inr Square"
    by blast
  with inst have "snd (register ShapeFactory (Some ''sq'') Square Map.empty)
      = Map.empty(canonicalize ShapeFactory (registration_tag (Some ''sq'') Square) \<mapsto> Square)"
    by blast
  then have "snd (register ShapeFactory (Some ''sq'') Square Map.empty)
       = [''shapes.ShapeFactory.sq'' \<mapsto> Square]"
    by (simp only: key)
  with fresh ret show ?thesis by (intro conjI)
qed

text \<open>
  C8. The table only grows. A successful \<open>register\<close> adds one key that was absent and
  leaves every entry that was there as it was; a failed \<open>register\<close> leaves the table as
  it was; \<open>create\<close> leaves the table as it was, on both of its paths; and after any
  history \<open>ops\<close> of calls, every entry of the starting table is still there with the
  same callable.
\<close>

theorem registry_insert_only:
  "(fst (register cls custom_tag registree registry) = Inr registree' \<longrightarrow>
      canonicalize cls (registration_tag custom_tag registree) \<notin> dom registry
      \<and> dom (snd (register cls custom_tag registree registry))
          = insert (canonicalize cls (registration_tag custom_tag registree)) (dom registry)
      \<and> (\<forall>key \<in> dom registry.
            snd (register cls custom_tag registree registry) key = registry key))
   \<and> (fst (register cls custom_tag registree registry) = Inl e \<longrightarrow>
        snd (register cls custom_tag registree registry) = registry)
   \<and> snd (create cls tag args registry) = registry
   \<and> registry \<subseteq>\<^sub>m run ops registry"
proof -
  let ?key = "canonicalize cls (registration_tag custom_tag registree)"
  have reg: "(fst (register cls custom_tag registree registry) = Inr registree' \<longrightarrow>
      ?key \<notin> dom registry
      \<and> dom (snd (register cls custom_tag registree registry)) = insert ?key (dom registry)
      \<and> (\<forall>key \<in> dom registry.
            snd (register cls custom_tag registree registry) key = registry key))
   \<and> (fst (register cls custom_tag registree registry) = Inl e \<longrightarrow>
        snd (register cls custom_tag registree registry) = registry)"
  proof (cases "registry ?key")
    case None
    then show ?thesis by (auto simp: register_fresh)
  next
    case (Some first)
    then show ?thesis by (simp add: register_duplicate)
  qed
  have cre: "snd (create cls tag args registry) = registry"
    by (cases "registry (canonicalize cls tag)") (simp_all add: create_present create_absent)
  have "registry \<subseteq>\<^sub>m run ops registry" by (rule run_extends)
  with reg cre show ?thesis by blast
qed

theorem registry_insert_only_witness:
  "fst (register ShapeFactory None Circle [''shapes.ShapeFactory.sq'' \<mapsto> Square]) = Inr Circle
   \<and> ''shapes.ShapeFactory.Circle'' \<notin> dom [''shapes.ShapeFactory.sq'' \<mapsto> Square]
   \<and> dom (snd (register ShapeFactory None Circle [''shapes.ShapeFactory.sq'' \<mapsto> Square]))
       = {''shapes.ShapeFactory.Circle'', ''shapes.ShapeFactory.sq''}
   \<and> snd (register ShapeFactory None Circle [''shapes.ShapeFactory.sq'' \<mapsto> Square])
         ''shapes.ShapeFactory.sq'' = Some Square
   \<and> fst (register ShapeFactory (Some ''sq'') Circle [''shapes.ShapeFactory.sq'' \<mapsto> Square])
       = Inl (AssertionError
           ''Duplicate tag registration found! Tag shapes.ShapeFactory.sq has already been registered'')
   \<and> snd (register ShapeFactory (Some ''sq'') Circle [''shapes.ShapeFactory.sq'' \<mapsto> Square])
       = [''shapes.ShapeFactory.sq'' \<mapsto> Square]
   \<and> snd (create ShapeFactory ''triangle'' 1 [''shapes.ShapeFactory.sq'' \<mapsto> Square])
       = [''shapes.ShapeFactory.sq'' \<mapsto> Square]"
proof -
  let ?table = "[''shapes.ShapeFactory.sq'' \<mapsto> Square]"
  have key: "canonicalize ShapeFactory (registration_tag None Circle)
      = ''shapes.ShapeFactory.Circle''"
    by (simp add: canonicalize_def namespace_def ShapeFactory_def registration_tag_def
        default_tag_def Circle_def)
  have ok: "fst (register ShapeFactory None Circle ?table) = Inr Circle"
    by (simp add: register_def key)
  have dup: "fst (register ShapeFactory (Some ''sq'') Circle ?table)
      = Inl (AssertionError
           ''Duplicate tag registration found! Tag shapes.ShapeFactory.sq has already been registered'')"
    by (simp add: register_def registration_tag_def canonicalize_def namespace_def
        ShapeFactory_def)
  have present: "''shapes.ShapeFactory.sq'' \<in> dom ?table" by simp
  have doms: "insert ''shapes.ShapeFactory.Circle'' (dom ?table)
      = {''shapes.ShapeFactory.Circle'', ''shapes.ShapeFactory.sq''}" by simp
  have old: "?table ''shapes.ShapeFactory.sq'' = Some Square" by simp
  note fresh = registry_insert_only
    [of ShapeFactory None Circle ?table Circle _ "''triangle''" 1 "[]"]
  note again = registry_insert_only
    [of ShapeFactory "Some ''sq''" Circle ?table Circle
      "AssertionError ''Duplicate tag registration found! Tag shapes.ShapeFactory.sq has already been registered''"
      "''triangle''" 1 "[]"]
  note added = fresh [THEN conjunct1, THEN mp, OF ok, unfolded key]
  note a = added [THEN conjunct1]
  have b: "dom (snd (register ShapeFactory None Circle ?table))
       = {''shapes.ShapeFactory.Circle'', ''shapes.ShapeFactory.sq''}"
    using added [THEN conjunct2, THEN conjunct1] by (simp only: doms)
  have c: "snd (register ShapeFactory None Circle ?table) ''shapes.ShapeFactory.sq''
      = Some Square"
    using added [THEN conjunct2, THEN conjunct2, rule_format, OF present] by (simp only: old)
  note d = fresh [THEN conjunct2, THEN conjunct2, THEN conjunct1]
  note e = again [THEN conjunct2, THEN conjunct1, THEN mp, OF dup]
  from ok a b c dup e d show ?thesis by (intro conjI)
qed



section \<open>The default \<open>special_items\<close> of \<open>auto_field_assignment\<close>\<close>

text \<open>
  C10, as stated, fails: the wrapped function \<open>def __init__(self)\<close> has no parameter
  but \<open>self\<close>, so a positional argument after the instance meets no parameter name in
  \<open>zip\<close>, the merged keyword arguments stay empty, the loop that tests
  \<open>name in special_items\<close> runs no iteration, and the wrapped function is called.
\<close>

theorem extra_positional_reaches_function:
  "auto_field_assignment None init_without_parameters [Instance [], Atom 1] []
     = Inr (Instance [], [])"
  by (simp add: auto_field_assignment_def decorated_def init_without_parameters_def)

text \<open>
  C10, amended. With \<open>special_items = None\<close>, a call with the instance as first
  positional argument raises TypeError before the wrapped function is called whenever it
  passes a keyword argument, or passes a positional argument after the instance to a
  wrapped function that has a parameter other than \<open>self\<close>. A call with no positional
  argument at all raises IndexError, before the wrapped function is called too.
\<close>

theorem default_special_items_raises:
  "(kwargs \<noteq> []
      \<or> (rest \<noteq> [] \<and> filter (\<lambda>param. param \<noteq> ''self'') (signature_parameters func) \<noteq> [])
     \<longrightarrow> auto_field_assignment None func (self # rest) kwargs = Inl TypeError)
   \<and> auto_field_assignment None func [] kwargs = Inl IndexError"
proof (intro conjI impI)
  let ?parameters = "filter (\<lambda>param. param \<noteq> ''self'') (signature_parameters func)"
  assume "kwargs \<noteq> [] \<or> (rest \<noteq> [] \<and> ?parameters \<noteq> [])"
  then have "kwargs \<noteq> [] \<or> zip ?parameters rest \<noteq> []"
    by (cases ?parameters; cases rest) auto
  then have "merge_args (zip ?parameters rest) kwargs \<noteq> []"
    by (rule merge_args_nonempty)
  then have "assign_fields None (merge_args (zip ?parameters rest) kwargs) self = Inl TypeError"
    by (rule assign_fields_None)
  then show "auto_field_assignment None func (self # rest) kwargs = Inl TypeError"
    by (simp add: auto_field_assignment_def decorated_def)
next
  show "auto_field_assignment None func [] kwargs = Inl IndexError"
    by (simp add: auto_field_assignment_def decorated_def)
qed

theorem default_special_items_raises_witness:
  "[Atom 3 :: nat pyobject] \<noteq> []
   \<and> filter (\<lambda>param. param \<noteq> ''self'') (signature_parameters init_with_radius) \<noteq> []
   \<and> auto_field_assignment None init_with_radius [Instance [], Atom 3] [] = Inl TypeError
   \<and> auto_field_assignment None init_without_parameters [Instance []] [(''radius'', Atom 3)]
       = Inl TypeError
   \<and> auto_field_assignment None init_with_radius [] [(''radius'', Atom 3)] = Inl IndexError"
proof -
  have rest: "[Atom 3 :: nat pyobject] \<noteq> []" by simp
  have params: "filter (\<lambda>param. param \<noteq> ''self'') (signature_parameters init_with_radius) \<noteq> []"
    by (simp add: init_with_radius_def)
  have kw: "[(''radius'', Atom 3 :: nat pyobject)] \<noteq> []" by simp
  note positional = default_special_items_raises
    [of "[]" "[Atom 3]" init_with_radius "Instance []"]
  note keyword = default_special_items_raises
    [of "[(''radius'', Atom 3)]" "[]" init_without_parameters "Instance []"]
  note missing = default_special_items_raises
    [of "[(''radius'', Atom 3)]" "[]" init_with_radius "Instance []"]
  from positional rest params
  have a: "auto_field_assignment None init_with_radius [Instance [], Atom 3] [] = Inl TypeError"
    by blast
  from keyword kw
  have b: "auto_field_assignment None init_without_parameters [Instance []]
      [(''radius'', Atom 3)] = Inl TypeError"
    by blast
  from missing
  have c: "auto_field_assignment None init_with_radius [] [(''radius'', Atom 3)] = Inl IndexError"
    by blast
  from rest params a b c show ?thesis by (intro conjI)
qed

end
